theory Spec2Isabelle
  imports Complex_Main "HOL-Library.Multiset" "HOL-Library.Sublist"
begin

section \<open>Errors\<close>

text \<open>The exceptions that the modelled code raises, as values.\<close>

datatype error = KeyError | ValueError | FileNotFoundError | NotADirectoryError

section \<open>The digits classification exercise: the train/test split\<close>

text \<open>
  \<^verbatim>\<open>
  n_samples = len(X_digits)

  X_train = X_digits[:int(.9 * n_samples)]
  y_train = y_digits[:int(.9 * n_samples)]
  X_test = X_digits[int(.9 * n_samples):]
  y_test = y_digits[int(.9 * n_samples):]
  \<close>
  \<open>int(.9 * n_samples)\<close> truncates the product towards zero. The product is never
  negative, so this is the floor of nine tenths of \<open>n_samples\<close>, written here in
  exact integer arithmetic. A slice \<open>a[:c]\<close> with \<open>0 \<le> c\<close> keeps the first \<open>c\<close> rows
  (all of them when \<open>c\<close> exceeds the length), and \<open>a[c:]\<close> keeps the others.
\<close>

definition split_point :: "nat \<Rightarrow> nat" where
  "split_point n_samples = (9 * n_samples) div 10"

definition slice_to :: "nat \<Rightarrow> 'a list \<Rightarrow> 'a list" where
  "slice_to c a = take c a"

definition slice_from :: "nat \<Rightarrow> 'a list \<Rightarrow> 'a list" where
  "slice_from c a = drop c a"

definition X_train :: "'a list \<Rightarrow> 'a list" where
  "X_train X_digits = slice_to (split_point (length X_digits)) X_digits"

definition y_train :: "'a list \<Rightarrow> 'b list \<Rightarrow> 'b list" where
  "y_train X_digits y_digits = slice_to (split_point (length X_digits)) y_digits"

definition X_test :: "'a list \<Rightarrow> 'a list" where
  "X_test X_digits = slice_from (split_point (length X_digits)) X_digits"

definition y_test :: "'a list \<Rightarrow> 'b list \<Rightarrow> 'b list" where
  "y_test X_digits y_digits = slice_from (split_point (length X_digits)) y_digits"

section \<open>The feature-union example: ItemSelector\<close>

text \<open>
  \<^verbatim>\<open>
  class ItemSelector(BaseEstimator, TransformerMixin):
      def __init__(self, key):
          self.key = key

      def fit(self, x, y=None):
          return self

      def transform(self, data_dict):
          return data_dict[self.key]
  \<close>
  The selector's state is its one attribute. \<open>data_dict\<close> is a dictionary, a partial map;
  subscripting it at an absent key raises \<open>KeyError\<close>. \<open>transform\<close> returns its result
  together with the dictionary as the call leaves it.
\<close>

record 'k ItemSelector =
  key :: 'k

definition ItemSelector_init :: "'k \<Rightarrow> 'k ItemSelector" where
  "ItemSelector_init k = \<lparr>key = k\<rparr>"

definition ItemSelector_fit :: "'k ItemSelector \<Rightarrow> 'x \<Rightarrow> 'y option \<Rightarrow> 'k ItemSelector" where
  "ItemSelector_fit self x y = self"

definition ItemSelector_transform ::
  "'k ItemSelector \<Rightarrow> ('k \<rightharpoonup> 'v) \<Rightarrow> (error + 'v) \<times> ('k \<rightharpoonup> 'v)" where
  "ItemSelector_transform self data_dict =
     (case data_dict (key self) of
        None \<Rightarrow> (Inl KeyError, data_dict)
      | Some v \<Rightarrow> (Inr v, data_dict))"

text \<open>
  The two other classes of the feature-union example.
  \<^verbatim>\<open>
  class TextStats(BaseEstimator, TransformerMixin):
      def fit(self, x, y=None):
          return self

      def transform(self, posts):
          return [{'length': len(text),
                   'num_sentences': text.count('.')}
                  for text in posts]

  class SubjectBodyExtractor(BaseEstimator, TransformerMixin):
      def fit(self, x, y=None):
          return self

      def transform(self, posts):
          features = np.recarray(shape=(len(posts),),
                                 dtype=[('subject', object), ('body', object)])
          for i, text in enumerate(posts):
              headers, _, bod = text.partition('\n\n')
              bod = strip_newsgroup_footer(bod)
              bod = strip_newsgroup_quoting(bod)
              features['body'][i] = bod

              prefix = 'Subject:'
              sub = ''
              for line in headers.split('\n'):
                  if line.startswith(prefix):
                      sub = line[len(prefix):]
                      break
              features['subject'][i] = sub

          return features
  \<close>
  A post is a string. The dictionary \<open>TextStats\<close> builds for a post is the list of its
  two items. The record array has the two fields \<open>subject\<close> and \<open>body\<close>, one value per
  post each. \<open>strip_newsgroup_footer\<close> and \<open>strip_newsgroup_quoting\<close> are
  the library's and are parameters. \<open>str.partition\<close> cuts at the first occurrence of the
  separator, and gives the whole string and two empty ones when there is none;
  \<open>str.split\<close> cuts at every occurrence.
\<close>

definition TextStats_fit :: "unit \<Rightarrow> 'x \<Rightarrow> 'y option \<Rightarrow> unit" where
  "TextStats_fit self x y = self"

definition TextStats_transform :: "string list \<Rightarrow> (string \<times> nat) list list" where
  "TextStats_transform posts =
     map (\<lambda>text. [(''length'', length text),
                  (''num_sentences'', length (filter (\<lambda>c. c = CHR ''.'') text))])
         posts"

fun str_partition :: "string \<Rightarrow> string \<Rightarrow> string \<times> string \<times> string" where
  "str_partition sep [] = ([], [], [])"
| "str_partition sep (c # cs) =
     (if prefix sep (c # cs) then ([], sep, drop (length sep) (c # cs))
      else (case str_partition sep cs of (before, found, after) \<Rightarrow> (c # before, found, after)))"

fun str_split :: "char \<Rightarrow> string \<Rightarrow> string list" where
  "str_split sep [] = [[]]"
| "str_split sep (c # cs) =
     (if c = sep then [] # str_split sep cs
      else (case str_split sep cs of [] \<Rightarrow> [[c]] | line # lines \<Rightarrow> (c # line) # lines))"

fun subject_of :: "string \<Rightarrow> string list \<Rightarrow> string" where
  "subject_of pre [] = []"
| "subject_of pre (line # lines) =
     (if prefix pre line then drop (length pre) line else subject_of pre lines)"

record features =
  subject :: "string list"
  body :: "string list"

definition SubjectBodyExtractor_fit :: "unit \<Rightarrow> 'x \<Rightarrow> 'y option \<Rightarrow> unit" where
  "SubjectBodyExtractor_fit self x y = self"

definition SubjectBodyExtractor_transform ::
  "(string \<Rightarrow> string) \<Rightarrow> (string \<Rightarrow> string) \<Rightarrow> string list \<Rightarrow> features" where
  "SubjectBodyExtractor_transform strip_newsgroup_footer strip_newsgroup_quoting posts =
     \<lparr>subject = map (\<lambda>text. case str_partition [CHR 0x0A, CHR 0x0A] text of
                               (headers, _, bod) \<Rightarrow> subject_of ''Subject:'' (str_split (CHR 0x0A) headers))
                     posts,
      body = map (\<lambda>text. case str_partition [CHR 0x0A, CHR 0x0A] text of
                            (headers, _, bod) \<Rightarrow> strip_newsgroup_quoting (strip_newsgroup_footer bod))
                  posts\<rparr>"

section \<open>The RBM example: nudge_dataset\<close>

text \<open>
  \<^verbatim>\<open>
  def nudge_dataset(X, Y):
      """
      This produces a dataset 5 times bigger than the original one,
      by moving the 8x8 images in X around by 1px to left, right, down, up
      """
      direction_vectors = [
          [[0, 1, 0], [0, 0, 0], [0, 0, 0]],
          [[0, 0, 0], [1, 0, 0], [0, 0, 0]],
          [[0, 0, 0], [0, 0, 1], [0, 0, 0]],
          [[0, 0, 0], [0, 0, 0], [0, 1, 0]]]

      shift = lambda x, w: convolve(x.reshape((8, 8)), mode='constant',
                                    weights=w).ravel()
      X = np.concatenate([X] +
                         [np.apply_along_axis(shift, 1, X, vector)
                          for vector in direction_vectors])
      Y = np.concatenate([Y for _ in range(5)], axis=0)
      return X, Y
  \<close>
  A matrix is the list of its rows, an image a flat row of pixels. Pixels are taken from
  any semiring (the integers, the reals): the convolution multiplies them by the weights
  and adds them up, and rounding plays no part in moving a pixel.

  The library calls are modelled by what they do on these arguments:
  \<^item> \<open>x.reshape((8, 8))\<close> cuts the row into 8 rows of 8 and raises \<open>ValueError\<close> when
    the row has not 64 elements; \<open>ravel\<close> lays the rows out again;
  \<^item> \<open>convolve(input, weights, mode='constant')\<close> with 3x3 weights computes
    \<open>output[i][j] = sum over a, b of weights[a][b] * input[i + 1 - a][j + 1 - b]\<close>,
    reading 0 outside the image;
  \<^item> \<open>np.apply_along_axis(f, 1, X, w)\<close> (the axis is 1 at its only call, and is not a
    parameter here) calls \<open>f(row, w)\<close> on every row of \<open>X\<close> and stacks the results; on
    a matrix with no row it has no first row to call \<open>f\<close> on and raises \<open>ValueError\<close>
    ("Cannot apply_along_axis when any iteration dimensions are 0"); an exception of
    \<open>f\<close> propagates;
  \<^item> \<open>np.concatenate\<close> appends the rows of its arguments in order.
\<close>

fun bind_err :: "error + 'a \<Rightarrow> ('a \<Rightarrow> error + 'b) \<Rightarrow> error + 'b" where
  "bind_err (Inl e) f = Inl e"
| "bind_err (Inr a) f = f a"

fun map_err :: "('a \<Rightarrow> error + 'b) \<Rightarrow> 'a list \<Rightarrow> error + 'b list" where
  "map_err f [] = Inr []"
| "map_err f (x # xs) = bind_err (f x) (\<lambda>y. bind_err (map_err f xs) (\<lambda>ys. Inr (y # ys)))"

definition reshape :: "nat \<times> nat \<Rightarrow> 'a list \<Rightarrow> error + 'a list list" where
  "reshape shape x =
     (case shape of (r, c) \<Rightarrow>
        if length x = r * c then Inr (map (\<lambda>i. take c (drop (i * c) x)) [0..<r])
        else Inl ValueError)"

definition ravel :: "'a list list \<Rightarrow> 'a list" where
  "ravel a = concat a"

definition constant_at :: "'a::zero list list \<Rightarrow> int \<Rightarrow> int \<Rightarrow> 'a" where
  "constant_at input i j =
     (if 0 \<le> i \<and> i < int (length input) \<and> 0 \<le> j \<and> j < int (length (input ! nat i))
      then input ! nat i ! nat j else 0)"

definition convolve :: "'a::semiring_1 list list \<Rightarrow> 'a list list \<Rightarrow> 'a list list" where
  "convolve input weights =
     map (\<lambda>i. map (\<lambda>j. \<Sum>a \<leftarrow> [0..<3]. \<Sum>b \<leftarrow> [0..<3].
                    weights ! a ! b * constant_at input (int i + 1 - int a) (int j + 1 - int b))
                [0..<length (input ! i)])
         [0..<length input]"

definition direction_vectors :: "'a::semiring_1 list list list" where
  "direction_vectors =
     [[[0, 1, 0],
       [0, 0, 0],
       [0, 0, 0]],

      [[0, 0, 0],
       [1, 0, 0],
       [0, 0, 0]],

      [[0, 0, 0],
       [0, 0, 1],
       [0, 0, 0]],

      [[0, 0, 0],
       [0, 0, 0],
       [0, 1, 0]]]"

definition shift :: "'a::semiring_1 list \<Rightarrow> 'a list list \<Rightarrow> error + 'a list" where
  "shift x w = bind_err (reshape (8, 8) x) (\<lambda>img. Inr (ravel (convolve img w)))"

definition apply_along_axis ::
  "('a list \<Rightarrow> 'w \<Rightarrow> error + 'b list) \<Rightarrow> 'a list list \<Rightarrow> 'w \<Rightarrow> error + 'b list list" where
  "apply_along_axis func1d arr w =
     (if arr = [] then Inl ValueError else map_err (\<lambda>row. func1d row w) arr)"

definition nudge_dataset ::
  "'a::semiring_1 list list \<Rightarrow> 'l list \<Rightarrow> error + ('a list list \<times> 'l list)" where
  "nudge_dataset X Y =
     bind_err (map_err (\<lambda>vector. apply_along_axis shift X vector) direction_vectors)
       (\<lambda>shifted. Inr (concat ([X] @ shifted), concat (map (\<lambda>_. Y) [0..<5])))"

text \<open>
  The claim's words, to compare with: the copy of an image moved by one pixel. The
  pixel at row \<open>i\<close>, column \<open>j\<close> of the copy is the pixel at row \<open>i + dr\<close>, column
  \<open>j + dc\<close> of the image, and 0 where that lies outside the 8x8 frame. The four moves,
  in the order of \<open>direction_vectors\<close>: up, left, right, down.
\<close>

definition shifted_copy :: "int \<times> int \<Rightarrow> 'a::zero list \<Rightarrow> 'a list" where
  "shifted_copy d x =
     (case d of (dr, dc) \<Rightarrow>
        map (\<lambda>p. if 0 \<le> int (p div 8) + dr \<and> int (p div 8) + dr < 8
                  \<and> 0 \<le> int (p mod 8) + dc \<and> int (p mod 8) + dc < 8
                 then x ! nat (8 * (int (p div 8) + dr) + (int (p mod 8) + dc)) else 0)
            [0..<64])"

definition shift_moves :: "(int \<times> int) list" where
  "shift_moves = [(1, 0), (0, 1), (0, -1), (-1, 0)]"

section \<open>The dimensionality-reduction comparison: the cached pipeline\<close>

text \<open>
  \<^verbatim>\<open>
  N_FEATURES_OPTIONS = [2, 4, 8]
  C_OPTIONS = [1, 10, 100, 1000]
  param_grid = [
      {
          'reduce_dim': [PCA(iterated_power=7), NMF()],
          'reduce_dim__n_components': N_FEATURES_OPTIONS,
          'classify__C': C_OPTIONS
      },
      {
          'reduce_dim': [SelectKBest(chi2)],
          'reduce_dim__k': N_FEATURES_OPTIONS,
          'classify__C': C_OPTIONS
      },
  ]
  \<close>
  A grid names the transformers to try, the sizes to reduce to (\<open>n_components\<close> of PCA
  and NMF, \<open>k\<close> of SelectKBest) and the values of \<open>C\<close>. The search walks each grid with its
  keys in alphabetical order, the last key varying fastest (the example's own comment:
  "scores are in the order of param_grid iteration, which is alphabetical"): \<open>C\<close> first,
  then the transformer, then the size.
\<close>

datatype reducer = PCA | NMF | SelectKBest







text \<open>
  \<^verbatim>\<open>
  from tempfile import mkdtemp
  from shutil import rmtree
  from sklearn.externals.joblib import Memory

  # Create a temporary folder to store the transformers of the pipeline
  cachedir = mkdtemp()
  memory = Memory(cachedir=cachedir, verbose=10)
  cached_pipe = Pipeline([('reduce_dim', PCA()),
                          ('classify', LinearSVC())],
                         memory=memory)

  # This time, a cached pipeline will be used within the grid search
  grid = GridSearchCV(cached_pipe, cv=3, n_jobs=1, param_grid=param_grid)
  digits = load_digits()
  grid.fit(digits.data, digits.target)

  # Delete the temporary cache before exiting
  rmtree(cachedir)
  \<close>
  The state this code works on is the file system and the lines the cache prints. A path
  is a list of components; the cache keeps one entry per key below its directory. A key
  is what the memoised \<open>_fit_transform_one\<close> is called on: the transformer, its size, and
  the data it is fitted on (the training part of one of the \<open>cv\<close> folds, or the whole
  data set for the final refit). The value of a fit is left abstract (\<open>'v\<close>).

  The example's printed output shows the two kinds of lines: "[Memory] Calling
  sklearn.pipeline._fit_transform_one..." when a fit is computed and stored, and the
  short "[Memory] 0.0s, 0.0min" when it is loaded; and its closing words say what the
  cache does: "The PCA fitting is only computed at the evaluation of the first
  configuration of the C parameter of the LinearSVC classifier. The other configurations
  of C will trigger the loading of the cached PCA estimator data".

  \<open>mkdtemp\<close> creates a directory that did not exist; its name is the system's choice and
  is a parameter here. \<open>rmtree\<close> removes a directory and everything below it, and raises
  when the path is missing or is not a directory. The winner of the search, which is
  refitted on the whole data set, depends on the scores and is a parameter too.
\<close>

datatype data = Fold nat | Full

type_synonym key = "reducer \<times> nat \<times> data"























section \<open>The feature-union example: loading the data\<close>






section \<open>Theorems\<close>

subsection \<open>The split of the digits exercise\<close>

lemma split_point_le: "split_point n \<le> n"
  by (simp add: split_point_def)

lemma split_point_floor: "int (split_point n) = \<lfloor>(9 / 10 :: real) * real n\<rfloor>"
proof -
  have "\<lfloor>(9 / 10 :: real) * real n\<rfloor> = \<lfloor>real_of_int (9 * int n) / real_of_int 10\<rfloor>"
    by simp
  also have "\<dots> = (9 * int n) div 10"
    by (rule floor_divide_of_int_eq)
  also have "\<dots> = int ((9 * n) div 10)"
    by (simp add: zdiv_int)
  finally show ?thesis
    by (simp add: split_point_def)
qed

lemma slices_append: "slice_to c a @ slice_from c a = a"
  by (simp add: slice_to_def slice_from_def)

lemma slices_mset: "mset (slice_to c a) + mset (slice_from c a) = mset a"
  by (simp add: slices_append flip: mset_append)

lemma slice_to_rows:
  "c \<le> length a \<Longrightarrow> length (slice_to c a) = c \<and> (\<forall>i < c. slice_to c a ! i = a ! i)"
  by (simp add: slice_to_def)

lemma slice_from_rows:
  "c \<le> length a \<Longrightarrow>
   length (slice_from c a) = length a - c \<and> (\<forall>j < length a - c. slice_from c a ! j = a ! (c + j))"
  by (simp add: slice_from_def)

text \<open>
  C7. In the digits classification exercise the train/test split is an exact partition:
  with \<open>n_samples\<close> the number of samples and \<open>c = floor (0.9 * n_samples)\<close>, \<open>X_train\<close> is
  rows \<open>0..c-1\<close> and \<open>X_test\<close> is rows \<open>c..n_samples-1\<close> of \<open>X_digits\<close>, likewise for \<open>y\<close>;
  concatenating the training part with the test part gives the data back, and every
  sample appears exactly once across the two parts.
\<close>

theorem digits_split_partition:
  fixes X_digits :: "'a list" and y_digits :: "'b list"
  assumes len: "length y_digits = length X_digits"
  shows "int (split_point (length X_digits)) = \<lfloor>(9 / 10 :: real) * real (length X_digits)\<rfloor>
    \<and> length (X_train X_digits) = split_point (length X_digits)
    \<and> length (y_train X_digits y_digits) = split_point (length X_digits)
    \<and> length (X_test X_digits) = length X_digits - split_point (length X_digits)
    \<and> length (y_test X_digits y_digits) = length X_digits - split_point (length X_digits)
    \<and> (\<forall>i < split_point (length X_digits).
          X_train X_digits ! i = X_digits ! i \<and> y_train X_digits y_digits ! i = y_digits ! i)
    \<and> (\<forall>j < length X_digits - split_point (length X_digits).
          X_test X_digits ! j = X_digits ! (split_point (length X_digits) + j)
        \<and> y_test X_digits y_digits ! j = y_digits ! (split_point (length X_digits) + j))
    \<and> X_train X_digits @ X_test X_digits = X_digits
    \<and> y_train X_digits y_digits @ y_test X_digits y_digits = y_digits
    \<and> mset (X_train X_digits) + mset (X_test X_digits) = mset X_digits
    \<and> mset (y_train X_digits y_digits) + mset (y_test X_digits y_digits) = mset y_digits"
proof -
  let ?c = "split_point (length X_digits)"
  have cX: "?c \<le> length X_digits"
    by (rule split_point_le)
  have cy: "?c \<le> length y_digits"
    using cX len by simp
  note tX = slice_to_rows [OF cX] and ty = slice_to_rows [OF cy]
    and fX = slice_from_rows [OF cX] and fy = slice_from_rows [OF cy]
  show ?thesis
    unfolding X_train_def y_train_def X_test_def y_test_def
    using tX ty fX fy len
    by (simp add: split_point_floor slices_append slices_mset)
qed

theorem digits_split_partition_witness:
  "length [0, 1, 2, 3, 4, 5, 6, 7, 8, 9 :: nat] = length [10, 11, 12, 13, 14, 15, 16, 17, 18, 19 :: nat]
   \<and> X_train [10, 11, 12, 13, 14, 15, 16, 17, 18, 19 :: nat] = [10, 11, 12, 13, 14, 15, 16, 17, 18]
   \<and> X_test [10, 11, 12, 13, 14, 15, 16, 17, 18, 19 :: nat] = [19]
   \<and> X_train [10, 11, 12, 13, 14, 15, 16, 17, 18, 19 :: nat]
       @ X_test [10, 11, 12, 13, 14, 15, 16, 17, 18, 19 :: nat]
     = [10, 11, 12, 13, 14, 15, 16, 17, 18, 19]
   \<and> y_train [10, 11, 12, 13, 14, 15, 16, 17, 18, 19 :: nat] [0, 1, 2, 3, 4, 5, 6, 7, 8, 9 :: nat]
       @ y_test [10, 11, 12, 13, 14, 15, 16, 17, 18, 19 :: nat] [0, 1, 2, 3, 4, 5, 6, 7, 8, 9 :: nat]
     = [0, 1, 2, 3, 4, 5, 6, 7, 8, 9]"
  using digits_split_partition
    [of "[0, 1, 2, 3, 4, 5, 6, 7, 8, 9 :: nat]" "[10, 11, 12, 13, 14, 15, 16, 17, 18, 19 :: nat]"]
  by (simp add: X_train_def X_test_def slice_to_def slice_from_def split_point_def)

subsection \<open>ItemSelector\<close>

text \<open>
  C6. For every ItemSelector with key \<open>k\<close>: \<open>fit\<close> returns the selector itself, its state
  unchanged, for every input; \<open>transform data_dict\<close> returns exactly the value
  \<open>data_dict[k]\<close>; it fails, with a key-lookup error, if and only if \<open>k\<close> is not a key of
  \<open>data_dict\<close>; and \<open>data_dict\<close> is unchanged by the call.
\<close>

theorem item_selector_contract:
  "ItemSelector_fit self x y = self
   \<and> key (ItemSelector_fit self x y) = key self
   \<and> (\<forall>v. data_dict (key self) = Some v \<longrightarrow> fst (ItemSelector_transform self data_dict) = Inr v)
   \<and> ((\<exists>e. fst (ItemSelector_transform self data_dict) = Inl e) \<longleftrightarrow> key self \<notin> dom data_dict)
   \<and> (fst (ItemSelector_transform self data_dict) = Inl KeyError \<longleftrightarrow> key self \<notin> dom data_dict)
   \<and> snd (ItemSelector_transform self data_dict) = data_dict"
  by (auto simp: ItemSelector_fit_def ItemSelector_transform_def split: option.splits)

theorem item_selector_contract_witness:
  "fst (ItemSelector_transform (ItemSelector_init ''a'') [''a'' \<mapsto> [1, 5, 2, 5, 2, 8 :: int], ''b'' \<mapsto> [9, 4, 1, 4, 1, 3]])
     = Inr [1, 5, 2, 5, 2, 8]
   \<and> fst (ItemSelector_transform (ItemSelector_init ''c'') [''a'' \<mapsto> [1, 5, 2, 5, 2, 8 :: int], ''b'' \<mapsto> [9, 4, 1, 4, 1, 3]])
     = Inl KeyError
   \<and> ItemSelector_fit (ItemSelector_init ''a'') (0 :: nat) (None :: nat option) = ItemSelector_init ''a''"
  using item_selector_contract
      [of "ItemSelector_init ''a''" "0 :: nat" "None :: nat option"
          "[''a'' \<mapsto> [1, 5, 2, 5, 2, 8 :: int], ''b'' \<mapsto> [9, 4, 1, 4, 1, 3]]"]
    item_selector_contract
      [of "ItemSelector_init ''c''" "0 :: nat" "None :: nat option"
          "[''a'' \<mapsto> [1, 5, 2, 5, 2, 8 :: int], ''b'' \<mapsto> [9, 4, 1, 4, 1, 3]]"]
  by (simp add: ItemSelector_init_def)

subsection \<open>nudge_dataset\<close>

lemma concat_nth_uniform:
  "\<forall>r \<in> set rows. length r = c \<Longrightarrow> p < length rows * c \<Longrightarrow>
   concat rows ! p = rows ! (p div c) ! (p mod c)"
proof (induction rows arbitrary: p)
  case Nil
  then show ?case by simp
next
  case (Cons r rows)
  show ?case
  proof (cases "p < c")
    case True
    with Cons.prems show ?thesis by (simp add: nth_append)
  next
    case False
    then have pc: "c \<le> p" by simp
    with Cons.prems have c0: "0 < c" by (cases c) auto
    from Cons.prems pc have "p - c < length rows * c" by simp
    with Cons.IH [of "p - c"] Cons.prems
    have "concat rows ! (p - c) = rows ! ((p - c) div c) ! ((p - c) mod c)" by simp
    moreover have "p div c = Suc ((p - c) div c)"
      using pc c0 by (simp add: le_div_geq)
    moreover have "p mod c = (p - c) mod c"
      using pc by (simp add: le_mod_geq)
    ultimately show ?thesis
      using Cons.prems pc False by (simp add: nth_append)
  qed
qed

lemma reshape_88:
  assumes "length x = 64"
  shows "reshape (8, 8) x = Inr (map (\<lambda>i. take 8 (drop (i * 8) x)) [0..<8])"
  using assms by (simp add: reshape_def)


lemma reshape_88_nth:
  assumes "length x = 64" "i < 8" "j < 8"
  shows "map (\<lambda>i. take 8 (drop (i * 8) x)) [0..<8] ! i ! j = x ! (8 * i + j)"
  using assms by (simp add: mult.commute)

lemma constant_at_88:
  assumes "length img = 8" "\<forall>r \<in> set img. length r = 8"
  shows "constant_at img i j =
     (if 0 \<le> i \<and> i < 8 \<and> 0 \<le> j \<and> j < 8 then img ! nat i ! nat j else 0)"
  using assms by (auto simp: constant_at_def)

lemma sum_list_upt3: "(\<Sum>a \<leftarrow> [0..<3]. f a) = f 0 + (f 1 + (f 2 + 0))"
  by (simp add: upt_rec numeral_3_eq_3 numeral_2_eq_2)

lemma convolve_moves:
  fixes img :: "'a::semiring_1 list list"
  assumes "length img = 8" "\<forall>r \<in> set img. length r = 8" "k < 4" "i < 8" "j < 8"
  shows "convolve img (direction_vectors ! k) ! i ! j
       = constant_at img (int i + fst (shift_moves ! k)) (int j + snd (shift_moves ! k))"
proof -
  have k: "k = 0 \<or> k = 1 \<or> k = 2 \<or> k = 3" using assms(3) by arith
  have li: "length (img ! i) = 8" using assms by simp
  show ?thesis
    using k assms(1,4,5) li
    by (auto simp: convolve_def direction_vectors_def shift_moves_def sum_list_upt3)
qed


lemma nat_flat_index: "0 \<le> r \<Longrightarrow> 0 \<le> c \<Longrightarrow> nat (8 * r + c) = 8 * nat r + nat c"
  by (simp add: nat_add_distrib nat_mult_distrib)

lemma shifted_copy_nth:
  "p < 64 \<Longrightarrow> shifted_copy d x ! p =
     (if 0 \<le> int (p div 8) + fst d \<and> int (p div 8) + fst d < 8
         \<and> 0 \<le> int (p mod 8) + snd d \<and> int (p mod 8) + snd d < 8
      then x ! nat (8 * (int (p div 8) + fst d) + (int (p mod 8) + snd d)) else 0)"
  by (cases d) (simp add: shifted_copy_def)

lemma convolve_shape:
  "length (convolve img w) = length img
   \<and> (\<forall>i < length img. length (convolve img w ! i) = length (img ! i))"
  by (simp add: convolve_def)

lemma shift_is_shifted_copy:
  fixes x :: "'a::semiring_1 list"
  assumes len: "length x = 64" and k: "k < 4"
  shows "shift x (direction_vectors ! k) = Inr (shifted_copy (shift_moves ! k) x)"
proof -
  define img where "img = map (\<lambda>i. take 8 (drop (i * 8) x)) [0..<8]"
  define out where "out = convolve img (direction_vectors ! k)"
  obtain dr dc where d: "shift_moves ! k = (dr, dc)" by (cases "shift_moves ! k")
  have img8: "length img = 8" and rows8: "\<forall>r \<in> set img. length r = 8"
    using len by (auto simp: img_def)
  have img_nth: "img ! i ! j = x ! (8 * i + j)" if "i < 8" "j < 8" for i j
    using reshape_88_nth [OF len that] by (simp add: img_def)
  have out8: "length out = 8" and orows8: "\<forall>r \<in> set out. length r = 8"
  proof -
    have rows8': "length (img ! i) = 8" if "i < 8" for i
      using rows8 img8 that by simp
    show "length out = 8"
      using convolve_shape [of img "direction_vectors ! k"] img8 by (simp add: out_def)
    show "\<forall>r \<in> set out. length r = 8"
      using convolve_shape [of img "direction_vectors ! k"] img8 rows8'
      by (auto simp: out_def in_set_conv_nth)
  qed
  have sh: "shift x (direction_vectors ! k) = Inr (concat out)"
    using len by (simp add: shift_def reshape_88 ravel_def img_def out_def)
  have "concat out = shifted_copy (shift_moves ! k) x"
  proof (rule nth_equalityI)
    show "length (concat out) = length (shifted_copy (shift_moves ! k) x)"
      using out8 orows8 by (simp add: shifted_copy_def d length_concat sum_list_triv
          cong: map_cong)
  next
    fix p assume "p < length (concat out)"
    then have p: "p < 64"
      using out8 orows8 by (simp add: length_concat sum_list_triv cong: map_cong)
    then have pd: "p div 8 < 8" and pm: "p mod 8 < 8" by simp_all
    have "concat out ! p = out ! (p div 8) ! (p mod 8)"
      using concat_nth_uniform [of out 8 p] orows8 out8 p by simp
    also have "\<dots> = constant_at img (int (p div 8) + dr) (int (p mod 8) + dc)"
      using convolve_moves [OF img8 rows8 k pd pm] by (simp add: out_def d)
    also have "\<dots> = shifted_copy (shift_moves ! k) x ! p"
    proof (cases "0 \<le> int (p div 8) + dr \<and> int (p div 8) + dr < 8
                \<and> 0 \<le> int (p mod 8) + dc \<and> int (p mod 8) + dc < 8")
      case True
      then have lt: "nat (int (p div 8) + dr) < 8" "nat (int (p mod 8) + dc) < 8" by auto
      have "constant_at img (int (p div 8) + dr) (int (p mod 8) + dc)
          = x ! (8 * nat (int (p div 8) + dr) + nat (int (p mod 8) + dc))"
        using True img_nth [OF lt] by (simp add: constant_at_88 [OF img8 rows8])
      also have "8 * nat (int (p div 8) + dr) + nat (int (p mod 8) + dc)
          = nat (8 * (int (p div 8) + dr) + (int (p mod 8) + dc))"
        using True by (intro nat_flat_index [symmetric]) simp_all
      also have "x ! nat (8 * (int (p div 8) + dr) + (int (p mod 8) + dc))
          = shifted_copy (shift_moves ! k) x ! p"
        using True p unfolding shifted_copy_nth [OF p] d by simp
      finally show ?thesis .
    next
      case False
      with p show ?thesis
        unfolding shifted_copy_nth [OF p] d
        by (auto simp: constant_at_88 [OF img8 rows8])
    qed
    finally show "concat out ! p = shifted_copy (shift_moves ! k) x ! p" .
  qed
  with sh show ?thesis by simp
qed

lemma map_err_all:
  "\<forall>x \<in> set xs. f x = Inr (g x) \<Longrightarrow> map_err f xs = Inr (map g xs)"
  by (induction xs) simp_all


lemma apply_along_axis_shift:
  fixes X :: "'a::semiring_1 list list"
  assumes "X \<noteq> []" "\<forall>x \<in> set X. length x = 64" "k < 4"
  shows "apply_along_axis shift X (direction_vectors ! k)
       = Inr (map (shifted_copy (shift_moves ! k)) X)"
  using assms
  by (simp add: apply_along_axis_def map_err_all [where g = "shifted_copy (shift_moves ! k)"]
      shift_is_shifted_copy)

lemma direction_vectors_nths:
  "(direction_vectors :: 'a::semiring_1 list list list)
     = [direction_vectors ! 0, direction_vectors ! 1, direction_vectors ! 2, direction_vectors ! 3]"
  by (simp add: direction_vectors_def)

lemma upt_0_5: "[0..<5] = [0, 1, 2, 3, 4]"
  by code_simp

lemma nudge_dataset_closed_form:
  fixes X :: "'a::semiring_1 list list"
  assumes ne: "X \<noteq> []" and rows: "\<forall>x \<in> set X. length x = 64"
  shows "nudge_dataset X Y =
     Inr (concat (X # map (\<lambda>k. map (shifted_copy (shift_moves ! k)) X) [0, 1, 2, 3]),
          concat [Y, Y, Y, Y, Y])"
proof -
  have "map_err (\<lambda>vector. apply_along_axis shift X vector)
          [direction_vectors ! 0, direction_vectors ! 1, direction_vectors ! 2, direction_vectors ! 3]
      = Inr (map (\<lambda>k. map (shifted_copy (shift_moves ! k)) X) [0, 1, 2, 3])"
    by (simp add: apply_along_axis_shift [OF ne rows])
  then have "map_err (\<lambda>vector. apply_along_axis shift X vector) direction_vectors
      = Inr (map (\<lambda>k. map (shifted_copy (shift_moves ! k)) X) [0, 1, 2, 3])"
    by (subst direction_vectors_nths)
  then show ?thesis
    by (simp add: nudge_dataset_def upt_0_5)
qed

lemma block_nth:
  assumes "\<forall>b \<in> set blocks. length b = n" "k < length blocks" "i < n"
  shows "concat blocks ! (k * n + i) = blocks ! k ! i"
proof -
  have "k * n + i < length blocks * n"
  proof -
    have "k * n + i < k * n + n" using assms(3) by simp
    also have "\<dots> = Suc k * n" by simp
    also have "\<dots> \<le> length blocks * n"
      using assms(2) by (intro mult_le_mono1) simp
    finally show ?thesis .
  qed
  from concat_nth_uniform [OF assms(1) this] assms(3) show ?thesis by simp
qed

text \<open>
  C5 (as amended). For every input matrix \<open>X\<close> with at least one row, whose rows are
  64-element (8x8) images, and every label vector \<open>Y\<close> with one label per row of \<open>X\<close>,
  \<open>nudge_dataset X Y\<close> returns a pair \<open>(X', Y')\<close> where \<open>X'\<close> has exactly 5 times as many
  rows as \<open>X\<close>, \<open>Y'\<close> is \<open>Y\<close> concatenated 5 times, the first \<open>|X|\<close> rows of \<open>X'\<close> are \<open>X\<close>
  unchanged, and for each of the four 1-pixel moves \<open>k\<close> the row at offset
  \<open>(k + 1) * |X| + i\<close> of \<open>X'\<close> is the shifted copy of row \<open>i\<close> of \<open>X\<close> and carries the
  label \<open>Y[i]\<close>.
\<close>

theorem nudge_dataset_nonempty:
  fixes X :: "'a::semiring_1 list list" and Y :: "'l list"
  assumes ne: "X \<noteq> []" and rows: "\<forall>x \<in> set X. length x = 64"
    and labels: "length Y = length X"
  shows "\<exists>X' Y'. nudge_dataset X Y = Inr (X', Y')
     \<and> length X' = 5 * length X
     \<and> Y' = Y @ Y @ Y @ Y @ Y
     \<and> take (length X) X' = X
     \<and> (\<forall>k < 4. \<forall>i < length X.
           X' ! ((k + 1) * length X + i) = shifted_copy (shift_moves ! k) (X ! i)
         \<and> Y' ! ((k + 1) * length X + i) = Y ! i)"
proof -
  let ?n = "length X"
  let ?bs = "X # map (\<lambda>k. map (shifted_copy (shift_moves ! k)) X) [0, 1, 2, 3]"
  let ?ys = "[Y, Y, Y, Y, Y]"
  have bs: "\<forall>b \<in> set ?bs. length b = ?n" by simp
  have ys: "\<forall>b \<in> set ?ys. length b = ?n" using labels by simp
  have shifted: "concat ?bs ! ((k + 1) * ?n + i) = shifted_copy (shift_moves ! k) (X ! i)
      \<and> concat ?ys ! ((k + 1) * ?n + i) = Y ! i" if "k < 4" "i < ?n" for k i
  proof -
    have k: "k = 0 \<or> k = 1 \<or> k = 2 \<or> k = 3" using that(1) by arith
    have "concat ?bs ! ((k + 1) * ?n + i) = ?bs ! (k + 1) ! i"
      using that by (intro block_nth [OF bs]) simp_all
    moreover have "concat ?ys ! ((k + 1) * ?n + i) = ?ys ! (k + 1) ! i"
      using that by (intro block_nth [OF ys]) simp_all
    ultimately show ?thesis
      using k that(2) by auto
  qed
  show ?thesis
  proof (intro exI conjI allI impI)
    show "nudge_dataset X Y = Inr (concat ?bs, concat ?ys)"
      by (rule nudge_dataset_closed_form [OF ne rows])
    show "length (concat ?bs) = 5 * ?n" by simp
    show "concat ?ys = Y @ Y @ Y @ Y @ Y" by simp
    show "take ?n (concat ?bs) = X" by simp
  next
    fix k i :: nat assume "k < 4" "i < ?n"
    then show "concat ?bs ! ((k + 1) * ?n + i) = shifted_copy (shift_moves ! k) (X ! i)"
      using shifted by blast
  next
    fix k i :: nat assume "k < 4" "i < ?n"
    then show "concat ?ys ! ((k + 1) * ?n + i) = Y ! i"
      using shifted by blast
  qed
qed

theorem nudge_dataset_nonempty_witness:
  "[replicate 64 (1 :: int)] \<noteq> []
   \<and> map length [replicate 64 (1 :: int)] = [64]
   \<and> length [7 :: nat] = length [replicate 64 (1 :: int)]
   \<and> (\<exists>X' Y'. nudge_dataset [replicate 64 (1 :: int)] [7 :: nat] = Inr (X', Y')
     \<and> length X' = 5 * length [replicate 64 (1 :: int)]
     \<and> Y' = [7] @ [7] @ [7] @ [7] @ [7]
     \<and> take (length [replicate 64 (1 :: int)]) X' = [replicate 64 1]
     \<and> (\<forall>k < 4. \<forall>i < length [replicate 64 (1 :: int)].
           X' ! ((k + 1) * length [replicate 64 (1 :: int)] + i)
             = shifted_copy (shift_moves ! k) ([replicate 64 1] ! i)
         \<and> Y' ! ((k + 1) * length [replicate 64 (1 :: int)] + i) = [7] ! i))"
proof -
  have h1: "[replicate 64 (1 :: int)] \<noteq> []" by simp
  have h2: "\<forall>x \<in> set [replicate 64 (1 :: int)]. length x = 64" by simp
  have h3: "length [7 :: nat] = length [replicate 64 (1 :: int)]" by simp
  have h2': "map length [replicate 64 (1 :: int)] = [64]" by simp
  from nudge_dataset_nonempty [OF h1 h2 h3] h1 h2' h3 show ?thesis
    by (intro conjI)
qed

text \<open>
  C5 (as stated) fails on the matrix with no row: the first \<open>apply_along_axis\<close> raises,
  and no pair is returned.
\<close>

theorem nudge_dataset_empty_counterexample:
  "nudge_dataset ([] :: int list list) ([] :: nat list) = Inl ValueError"
  by (simp add: nudge_dataset_def direction_vectors_def apply_along_axis_def)

text \<open>The rows must be images: a row of 63 pixels makes \<open>reshape\<close> raise.\<close>

lemma nudge_dataset_short_row:
  "nudge_dataset [replicate 63 (0 :: int)] [7 :: nat] = Inl ValueError"
  by (simp add: nudge_dataset_def direction_vectors_def apply_along_axis_def shift_def reshape_def)

text \<open>
  The four moves on the image whose pixels are numbered 0 to 63, row by row: up, left,
  right, down, each filling the vacated edge with 0.
\<close>

lemma nudge_dataset_numbered_image:
  "nudge_dataset [map int [0..<64]] [7 :: nat] =
     Inr ([map int [0..<64],
           map int [8..<64] @ replicate 8 0,
           concat (map (\<lambda>r. map int [8 * r + 1..<8 * r + 8] @ [0]) [0..<8]),
           concat (map (\<lambda>r. 0 # map int [8 * r..<8 * r + 7]) [0..<8]),
           replicate 8 0 @ map int [0..<56]],
          [7, 7, 7, 7, 7])"
  by code_simp

subsection \<open>The cached pipeline\<close>
























subsection \<open>State on disk\<close>






subsection \<open>The classes of the feature-union example at work\<close>

text \<open>
  A post with two header lines, a blank line and a body: the extractor finds the subject
  (what follows \<open>Subject:\<close> on its line) and the body, the statistics count the body's
  characters and full stops.
\<close>

lemma SubjectBodyExtractor_example:
  "SubjectBodyExtractor_transform id id
     [''From: a'' @ [CHR 0x0A] @ ''Subject: hi there'' @ [CHR 0x0A, CHR 0x0A] @ ''body. text.'',
      ''no header'']
   = \<lparr>subject = ['' hi there'', []], body = [''body. text.'', []]\<rparr>"
  by (simp add: SubjectBodyExtractor_transform_def)

lemma TextStats_example:
  "TextStats_transform [''body. text.'', []]
   = [[(''length'', 11), (''num_sentences'', 2)], [(''length'', 0), (''num_sentences'', 0)]]"
  by (simp add: TextStats_transform_def)

end
